theory Spec2Isabelle
  imports Complex_Main
begin

section \<open>Scalars, errors and the consumed Vector interface\<close>

text \<open>
  The program computes with Python's \<^verbatim>\<open>Decimal\<close>. A \<^verbatim>\<open>Decimal\<close> is modelled by the
  rational number it denotes, and the arithmetic is exact; the rounding of the 30-digit
  context is not part of the model. Every raise of the source is a value \<open>Inl e\<close>.
\<close>

datatype error =
    Exception string
  | IndexError
  | AttributeError
  | DecimalDivisionError
  | DimensionMismatch

definition bindE :: "error + 'a \<Rightarrow> ('a \<Rightarrow> error + 'b) \<Rightarrow> error + 'b" where
  "bindE m f = (case m of Inl e \<Rightarrow> Inl e | Inr x \<Rightarrow> f x)"

definition NO_NONZERO_ELTS_FOUND_MSG :: string where
  "NO_NONZERO_ELTS_FOUND_MSG = ''No nonzero elements found''"

definition ALL_PLANES_MUST_BE_IN_SAME_DIM_MSG :: string where
  "ALL_PLANES_MUST_BE_IN_SAME_DIM_MSG =
     ''All planes in the system should live in the same dimension''"

definition NO_SOLUTIONS_MSG :: string where
  "NO_SOLUTIONS_MSG = ''No solutions''"

definition INF_SOLUTIONS_MSG :: string where
  "INF_SOLUTIONS_MSG = ''Infinitely many solutions''"

text \<open>
  The two messages below are written in the source with a backslash-newline inside the
  string literal, so the indentation of the continuation line is part of the message.
\<close>

definition BASEPT_AND_DIR_VECTORS_MUST_BE_IN_SAME_DIM :: string where
  "BASEPT_AND_DIR_VECTORS_MUST_BE_IN_SAME_DIM =
     ''The basepoint and             direction vectors should all live in the same dimension''"

text \<open>
  \<^verbatim>\<open>MyDecimal.is_near_zero(self, eps=1e-10)\<close> is \<^verbatim>\<open>abs(self) < eps\<close>. The default
  \<^verbatim>\<open>eps\<close> is the binary float written \<^verbatim>\<open>1e-10\<close>, and Python compares a Decimal with a
  float by value: the bound is the double nearest to \<open>10\<^sup>-\<^sup>1\<^sup>0\<close>, which is
  \<open>7737125245533627 / 2\<^sup>8\<^sup>6\<close>.
\<close>

definition eps :: rat where
  "eps = 7737125245533627 / 2 ^ 86"

definition is_near_zero :: "rat \<Rightarrow> bool" where
  "is_near_zero x = (\<bar>x\<bar> < eps)"

definition decimal_div :: "rat \<Rightarrow> rat \<Rightarrow> error + rat" where
  "decimal_div a b = (if b = 0 then Inl DecimalDivisionError else Inr (a / b))"

text \<open>
  Python's indexing of a sequence of length \<open>n\<close>: a negative index counts from the end,
  anything outside \<open>[-n, n)\<close> raises IndexError.
\<close>

definition py_index :: "nat \<Rightarrow> int \<Rightarrow> error + nat" where
  "py_index n i =
     (if 0 \<le> i \<and> i < int n then Inr (nat i)
      else if - int n \<le> i \<and> i < 0 then Inr (nat (int n + i))
      else Inl IndexError)"

definition list_getitem :: "'a list \<Rightarrow> int \<Rightarrow> error + 'a" where
  "list_getitem xs i = bindE (py_index (length xs) i) (\<lambda>j. Inr (xs ! j))"

definition list_setitem :: "'a list \<Rightarrow> int \<Rightarrow> 'a \<Rightarrow> error + 'a list" where
  "list_setitem xs i v = bindE (py_index (length xs) i) (\<lambda>j. Inr (xs[j := v]))"

type_synonym vector = "rat list"

text \<open>
  Modelled from the spec: the module \<^verbatim>\<open>vector\<close> (class \<^verbatim>\<open>Vector\<close>) is imported by the
  three source files and is not among them. The spec gives it as an immutable ordered
  sequence of exact scalars whose dimension is its length, with indexed access.
\<close>

definition vec_getitem :: "vector \<Rightarrow> int \<Rightarrow> error + rat" where
  "vec_getitem v i = list_getitem v i"

text \<open>Modelled from the spec: \<^verbatim>\<open>Vector.scalar_multiply\<close>, coordinatewise.\<close>

definition scalar_multiply :: "vector \<Rightarrow> rat \<Rightarrow> vector" where
  "scalar_multiply v c = map (\<lambda>x. c * x) v"

text \<open>
  Modelled from the spec: \<^verbatim>\<open>Vector.add\<close>, coordinatewise; the spec lets every binary
  operation of Vector fail with a dimension-mismatch error when the dimensions differ.
\<close>

definition vec_add :: "vector \<Rightarrow> vector \<Rightarrow> error + vector" where
  "vec_add v w =
     (if length v = length w then Inr (map2 (\<lambda>x y. x + y) v w) else Inl DimensionMismatch)"


text \<open>Modelled from the spec: the dot product of Vector, same failure.\<close>

definition dot :: "vector \<Rightarrow> vector \<Rightarrow> error + rat" where
  "dot v w =
     (if length v = length w then Inr (sum_list (map2 (\<lambda>x y. x * y) v w))
      else Inl DimensionMismatch)"

section \<open>Plane (plane.py)\<close>

record plane =
  dimension :: nat
  normal_vector :: vector
  constant_term :: rat
  basepoint :: "vector option"

text \<open>
  \<^verbatim>\<open>first_nonzero_index\<close> walks \<^verbatim>\<open>enumerate(iterable)\<close> and raises
  \<^verbatim>\<open>Exception(NO_NONZERO_ELTS_FOUND_MSG)\<close> after the last item.
\<close>

fun first_nonzero_index_from :: "nat \<Rightarrow> rat list \<Rightarrow> error + nat" where
  "first_nonzero_index_from k [] = Inl (Exception NO_NONZERO_ELTS_FOUND_MSG)"
| "first_nonzero_index_from k (item # rest) =
     (if \<not> is_near_zero item then Inr k else first_nonzero_index_from (Suc k) rest)"

definition first_nonzero_index :: "rat list \<Rightarrow> error + nat" where
  "first_nonzero_index iterable = first_nonzero_index_from 0 iterable"

text \<open>
  \<^verbatim>\<open>Plane.set_basepoint\<close>: the body of the \<^verbatim>\<open>try\<close>, then the handler, which turns
  the sentinel message into \<^verbatim>\<open>basepoint = None\<close> and re-raises anything else (the
  IndexError of \<^verbatim>\<open>basepoint_coords[initial_index] = ...\<close> among them).
\<close>

definition basepoint_try :: "nat \<Rightarrow> vector \<Rightarrow> rat \<Rightarrow> error + vector" where
  "basepoint_try d n c =
     bindE (first_nonzero_index n) (\<lambda>initial_index.
     bindE (vec_getitem n (int initial_index)) (\<lambda>initial_coefficient.
     bindE (decimal_div c initial_coefficient) (\<lambda>q.
     list_setitem (replicate d 0) (int initial_index) q)))"

definition set_basepoint :: "nat \<Rightarrow> vector \<Rightarrow> rat \<Rightarrow> error + vector option" where
  "set_basepoint d n c =
     (case basepoint_try d n c of
        Inr b \<Rightarrow> Inr (Some b)
      | Inl e \<Rightarrow> (if e = Exception NO_NONZERO_ELTS_FOUND_MSG then Inr None else Inl e))"

text \<open>
  \<^verbatim>\<open>Plane.__init__(normal_vector=None, constant_term=None)\<close>. The dimension is the
  constant 3 whatever the normal vector is. An argument left out is \<open>None\<close>; a
  \<^verbatim>\<open>Vector\<close> object that is passed counts as given.
\<close>

definition Plane_init :: "vector option \<Rightarrow> rat option \<Rightarrow> error + plane" where
  "Plane_init nv ct =
     (let d = 3;
          n = (case nv of None \<Rightarrow> replicate d 0 | Some v \<Rightarrow> v);
          c = (case ct of None \<Rightarrow> 0 | Some c \<Rightarrow> c)
      in bindE (set_basepoint d n c) (\<lambda>b.
           Inr \<lparr>dimension = d, normal_vector = n, constant_term = c, basepoint = b\<rparr>))"

section \<open>LinearSystem (linsys.py)\<close>

record linear_system =
  planes :: "plane list"
  system_dimension :: nat

text \<open>
  \<^verbatim>\<open>LinearSystem.__init__\<close>: \<^verbatim>\<open>planes[0]\<close> raises IndexError on an empty list, which
  the handler for AssertionError does not catch.
\<close>

definition LinearSystem_init :: "plane list \<Rightarrow> error + linear_system" where
  "LinearSystem_init ps =
     (case ps of
        [] \<Rightarrow> Inl IndexError
      | p0 # _ \<Rightarrow>
          (if list_all (\<lambda>p. dimension p = dimension p0) ps
           then Inr \<lparr>planes = ps, system_dimension = dimension p0\<rparr>
           else Inl (Exception ALL_PLANES_MUST_BE_IN_SAME_DIM_MSG)))"

definition getitem :: "linear_system \<Rightarrow> int \<Rightarrow> error + plane" where
  "getitem s i = list_getitem (planes s) i"


text \<open>
  The row operations write \<^verbatim>\<open>self.planes[...]\<close> directly (not through
  \<^verbatim>\<open>__setitem__\<close>), and the row they write is a new \<^verbatim>\<open>Plane\<close>.
\<close>

definition add_multiple_times_row_to_row ::
  "linear_system \<Rightarrow> rat \<Rightarrow> int \<Rightarrow> int \<Rightarrow> error + linear_system" where
  "add_multiple_times_row_to_row s coefficient row_to_add row_to_be_added_to =
     bindE (list_getitem (planes s) row_to_add) (\<lambda>plane1.
     bindE (list_getitem (planes s) row_to_be_added_to) (\<lambda>plane2.
     bindE (vec_add (scalar_multiply (normal_vector plane1) coefficient)
                    (normal_vector plane2)) (\<lambda>new_normal_vector.
     bindE (Plane_init (Some new_normal_vector)
              (Some (constant_term plane1 * coefficient + constant_term plane2))) (\<lambda>p.
     bindE (list_setitem (planes s) row_to_be_added_to p) (\<lambda>ps.
     Inr (s\<lparr>planes := ps\<rparr>))))))"

definition swap_rows :: "linear_system \<Rightarrow> int \<Rightarrow> int \<Rightarrow> error + linear_system" where
  "swap_rows s row1 row2 =
     bindE (list_getitem (planes s) row1) (\<lambda>p1.
     bindE (list_getitem (planes s) row2) (\<lambda>p2.
     bindE (list_setitem (planes s) row2 p1) (\<lambda>ps.
     bindE (list_setitem ps row1 p2) (\<lambda>ps'.
     Inr (s\<lparr>planes := ps'\<rparr>)))))"

definition multiply_coefficient_and_row ::
  "linear_system \<Rightarrow> rat \<Rightarrow> int \<Rightarrow> error + linear_system" where
  "multiply_coefficient_and_row s coefficient row =
     bindE (list_getitem (planes s) row) (\<lambda>pl.
     bindE (Plane_init (Some (scalar_multiply (normal_vector pl) coefficient))
              (Some (constant_term pl * coefficient))) (\<lambda>p.
     bindE (list_setitem (planes s) row p) (\<lambda>ps.
     Inr (s\<lparr>planes := ps\<rparr>))))"

text \<open>
  \<^verbatim>\<open>indices_of_first_nonzero_terms_in_each_row\<close>: \<open>-1\<close> stays where
  \<^verbatim>\<open>first_nonzero_index\<close> raises the sentinel message.
\<close>

definition pivot_of :: "plane \<Rightarrow> int" where
  "pivot_of p =
     (case first_nonzero_index (normal_vector p) of Inr k \<Rightarrow> int k | Inl e \<Rightarrow> - 1)"

definition indices_of_first_nonzero_terms_in_each_row :: "linear_system \<Rightarrow> int list" where
  "indices_of_first_nonzero_terms_in_each_row s = map pivot_of (planes s)"

text \<open>The coefficient \<^verbatim>\<open>self[row].normal_vector[col]\<close>.\<close>

definition coeff_at :: "linear_system \<Rightarrow> nat \<Rightarrow> nat \<Rightarrow> error + rat" where
  "coeff_at s row col =
     bindE (getitem s (int row)) (\<lambda>p. vec_getitem (normal_vector p) (int col))"

text \<open>
  \<^verbatim>\<open>swap_with_row_below_for_nonzero_coefficient\<close>: the loop over
  \<^verbatim>\<open>range(row + 1, num_equations)\<close> is a recursion over the list of those \<open>k\<close>.
\<close>

fun swap_below_loop ::
  "linear_system \<Rightarrow> nat \<Rightarrow> nat \<Rightarrow> nat list \<Rightarrow> error + (bool \<times> linear_system)" where
  "swap_below_loop s row col [] = Inr (False, s)"
| "swap_below_loop s row col (k # ks) =
     (case coeff_at s k col of
        Inl e \<Rightarrow> Inl e
      | Inr coeff \<Rightarrow>
          (if \<not> is_near_zero coeff
           then (case swap_rows s (int row) (int k) of
                   Inl e \<Rightarrow> Inl e
                 | Inr s' \<Rightarrow> Inr (True, s'))
           else swap_below_loop s row col ks))"

definition swap_with_row_below_for_nonzero_coefficient ::
  "linear_system \<Rightarrow> nat \<Rightarrow> nat \<Rightarrow> error + (bool \<times> linear_system)" where
  "swap_with_row_below_for_nonzero_coefficient s row col =
     swap_below_loop s row col [row + 1 ..< length (planes s)]"

text \<open>
  \<^verbatim>\<open>clear_coeffs_below\<close>: \<^verbatim>\<open>beta\<close> is read once before the loop (an error there is
  raised even when no row lies below).
\<close>

fun clear_below_loop ::
  "linear_system \<Rightarrow> nat \<Rightarrow> nat \<Rightarrow> rat \<Rightarrow> nat list \<Rightarrow> error + linear_system" where
  "clear_below_loop s row col beta [] = Inr s"
| "clear_below_loop s row col beta (k # ks) =
     (case coeff_at s k col of
        Inl e \<Rightarrow> Inl e
      | Inr gamma \<Rightarrow>
          (case decimal_div (- gamma) beta of
             Inl e \<Rightarrow> Inl e
           | Inr alpha \<Rightarrow>
               (case add_multiple_times_row_to_row s alpha (int row) (int k) of
                  Inl e \<Rightarrow> Inl e
                | Inr s' \<Rightarrow> clear_below_loop s' row col beta ks)))"

definition clear_coeffs_below :: "linear_system \<Rightarrow> nat \<Rightarrow> nat \<Rightarrow> error + linear_system" where
  "clear_coeffs_below s row col =
     bindE (coeff_at s row col) (\<lambda>beta.
       clear_below_loop s row col beta [row + 1 ..< length (planes s)])"

text \<open>
  \<^verbatim>\<open>compute_triangular_form\<close>, on the copy. The inner \<^verbatim>\<open>while col < n_variables\<close>
  returns the column cursor and the system when it breaks or runs out of columns;
  the outer \<^verbatim>\<open>for row in range(n_equations)\<close> threads both.
\<close>

function triangular_while ::
  "nat \<Rightarrow> linear_system \<Rightarrow> nat \<Rightarrow> nat \<Rightarrow> error + (nat \<times> linear_system)" where
  "triangular_while n_variables s row col =
     (if col < n_variables then
        (case coeff_at s row col of
           Inl e \<Rightarrow> Inl e
         | Inr c \<Rightarrow>
             (if is_near_zero c then
                (case swap_with_row_below_for_nonzero_coefficient s row col of
                   Inl e \<Rightarrow> Inl e
                 | Inr (swapped, s1) \<Rightarrow>
                     (if \<not> swapped then triangular_while n_variables s1 row (col + 1)
                      else (case clear_coeffs_below s1 row col of
                              Inl e \<Rightarrow> Inl e
                            | Inr s2 \<Rightarrow> Inr (col + 1, s2))))
              else (case clear_coeffs_below s row col of
                      Inl e \<Rightarrow> Inl e
                    | Inr s2 \<Rightarrow> Inr (col + 1, s2))))
      else Inr (col, s))"
  by pat_completeness auto
termination
  by (relation "measure (\<lambda>(n_variables, s, row, col). n_variables - col)") auto

declare triangular_while.simps [simp del]

fun triangular_rows ::
  "nat \<Rightarrow> linear_system \<Rightarrow> nat \<Rightarrow> nat list \<Rightarrow> error + linear_system" where
  "triangular_rows n_variables s col [] = Inr s"
| "triangular_rows n_variables s col (row # rows) =
     (case triangular_while n_variables s row col of
        Inl e \<Rightarrow> Inl e
      | Inr (col', s') \<Rightarrow> triangular_rows n_variables s' col' rows)"

definition compute_triangular_form :: "linear_system \<Rightarrow> error + linear_system" where
  "compute_triangular_form s =
     triangular_rows (system_dimension s) s 0 [0 ..< length (planes s)]"

text \<open>\<^verbatim>\<open>clear_coefficients_above\<close>: \<^verbatim>\<open>k\<close> runs down from \<^verbatim>\<open>row - 1\<close> to 0.\<close>

fun clear_above_loop ::
  "linear_system \<Rightarrow> nat \<Rightarrow> nat \<Rightarrow> nat list \<Rightarrow> error + linear_system" where
  "clear_above_loop s row col [] = Inr s"
| "clear_above_loop s row col (k # ks) =
     (case coeff_at s k col of
        Inl e \<Rightarrow> Inl e
      | Inr a \<Rightarrow>
          (case add_multiple_times_row_to_row s (- a) (int row) (int k) of
             Inl e \<Rightarrow> Inl e
           | Inr s' \<Rightarrow> clear_above_loop s' row col ks))"

definition clear_coefficients_above ::
  "linear_system \<Rightarrow> nat \<Rightarrow> nat \<Rightarrow> error + linear_system" where
  "clear_coefficients_above s row col = clear_above_loop s row col (rev [0 ..< row])"

definition scale_row_to_make_coefficient_equal_one ::
  "linear_system \<Rightarrow> nat \<Rightarrow> nat \<Rightarrow> error + linear_system" where
  "scale_row_to_make_coefficient_equal_one s row col =
     bindE (coeff_at s row col) (\<lambda>c.
     bindE (decimal_div 1 c) (\<lambda>beta.
     multiply_coefficient_and_row s beta (int row)))"

text \<open>
  \<^verbatim>\<open>compute_rref\<close>: the pivot indices are read once, from the triangular form, and
  the rows are visited from the last to the first.
\<close>

fun rref_rows :: "linear_system \<Rightarrow> int list \<Rightarrow> nat list \<Rightarrow> error + linear_system" where
  "rref_rows s pivot_indices [] = Inr s"
| "rref_rows s pivot_indices (row # rows) =
     (case list_getitem pivot_indices (int row) of
        Inl e \<Rightarrow> Inl e
      | Inr pivot_var \<Rightarrow>
          (if pivot_var < 0 then rref_rows s pivot_indices rows
           else (case scale_row_to_make_coefficient_equal_one s row (nat pivot_var) of
                   Inl e \<Rightarrow> Inl e
                 | Inr s1 \<Rightarrow>
                     (case clear_coefficients_above s1 row (nat pivot_var) of
                        Inl e \<Rightarrow> Inl e
                      | Inr s2 \<Rightarrow> rref_rows s2 pivot_indices rows))))"

definition compute_rref :: "linear_system \<Rightarrow> error + linear_system" where
  "compute_rref s =
     bindE (compute_triangular_form s) (\<lambda>triangular_form.
       rref_rows triangular_form
         (indices_of_first_nonzero_terms_in_each_row triangular_form)
         (rev [0 ..< length (planes triangular_form)]))"

text \<open>
  \<^verbatim>\<open>raise_excepion_if_contradictory_equation\<close>: a row without a first nonzero index
  and with a constant term that is not near zero raises \<^verbatim>\<open>Exception(NO_SOLUTIONS_MSG)\<close>.
\<close>

definition contradictory :: "plane \<Rightarrow> bool" where
  "contradictory p =
     (case first_nonzero_index (normal_vector p) of
        Inr k \<Rightarrow> False
      | Inl e \<Rightarrow> \<not> is_near_zero (constant_term p))"

definition raise_excepion_if_contradictory_equation :: "linear_system \<Rightarrow> error + unit" where
  "raise_excepion_if_contradictory_equation s =
     (if list_ex contradictory (planes s) then Inl (Exception NO_SOLUTIONS_MSG)
      else Inr ())"

definition raise_excepion_if_too_few_pivots :: "linear_system \<Rightarrow> error + unit" where
  "raise_excepion_if_too_few_pivots s =
     (let pivot_indices = indices_of_first_nonzero_terms_in_each_row s;
          num_pivots = length (filter (\<lambda>index. index \<ge> 0) pivot_indices)
      in if num_pivots < system_dimension s then Inl (Exception INF_SOLUTIONS_MSG)
         else Inr ())"

section \<open>Parametrization and the solution\<close>

record parametrization =
  param_basepoint :: vector
  direction_vectors :: "vector list"
  param_dimension :: nat

definition Parametrization_init :: "vector \<Rightarrow> vector list \<Rightarrow> error + parametrization" where
  "Parametrization_init b dvs =
     (if list_all (\<lambda>v. length v = length b) dvs
      then Inr \<lparr>param_basepoint = b, direction_vectors = dvs, param_dimension = length b\<rparr>
      else Inl (Exception BASEPT_AND_DIR_VECTORS_MUST_BE_IN_SAME_DIM))"

text \<open>
  The walk over \<^verbatim>\<open>enumerate(self.planes)\<close> shared by the two extraction functions:
  it stops at the first row whose pivot index is negative.
\<close>

fun direction_walk ::
  "nat \<Rightarrow> rat list \<Rightarrow> (int \<times> plane) list \<Rightarrow> error + rat list" where
  "direction_walk free_var vector_coords [] = Inr vector_coords"
| "direction_walk free_var vector_coords ((pivot_var, pl) # rest) =
     (if pivot_var < 0 then Inr vector_coords
      else (case vec_getitem (normal_vector pl) (int free_var) of
              Inl e \<Rightarrow> Inl e
            | Inr a \<Rightarrow>
                (case list_setitem vector_coords pivot_var (- a) of
                   Inl e \<Rightarrow> Inl e
                 | Inr vector_coords' \<Rightarrow> direction_walk free_var vector_coords' rest)))"

fun direction_loop ::
  "nat \<Rightarrow> (int \<times> plane) list \<Rightarrow> nat list \<Rightarrow> error + vector list" where
  "direction_loop num_variables rows [] = Inr []"
| "direction_loop num_variables rows (free_var # free_vars) =
     (case list_setitem (replicate num_variables 0) (int free_var) 1 of
        Inl e \<Rightarrow> Inl e
      | Inr vector_coords \<Rightarrow>
          (case direction_walk free_var vector_coords rows of
             Inl e \<Rightarrow> Inl e
           | Inr v \<Rightarrow>
               (case direction_loop num_variables rows free_vars of
                  Inl e \<Rightarrow> Inl e
                | Inr vs \<Rightarrow> Inr (v # vs))))"

text \<open>
  \<^verbatim>\<open>extract_direction_vectors_for_parametrization\<close>. The free variables are
  \<^verbatim>\<open>set(range(num_variables)) - set(pivot_indices)\<close>; the model visits them in
  ascending order.
\<close>

definition extract_direction_vectors_for_parametrization ::
  "linear_system \<Rightarrow> error + vector list" where
  "extract_direction_vectors_for_parametrization s =
     (let num_variables = system_dimension s;
          pivot_indices = indices_of_first_nonzero_terms_in_each_row s;
          free_variable_indices =
            filter (\<lambda>i. int i \<notin> set pivot_indices) [0 ..< num_variables]
      in direction_loop num_variables (zip pivot_indices (planes s)) free_variable_indices)"

fun basepoint_walk :: "rat list \<Rightarrow> (int \<times> plane) list \<Rightarrow> error + rat list" where
  "basepoint_walk basepoint_coords [] = Inr basepoint_coords"
| "basepoint_walk basepoint_coords ((pivot_var, pl) # rest) =
     (if pivot_var < 0 then Inr basepoint_coords
      else (case list_setitem basepoint_coords pivot_var (constant_term pl) of
              Inl e \<Rightarrow> Inl e
            | Inr basepoint_coords' \<Rightarrow> basepoint_walk basepoint_coords' rest))"

definition extract_basepoint_for_parametrization :: "linear_system \<Rightarrow> error + vector" where
  "extract_basepoint_for_parametrization s =
     (let num_variables = system_dimension s;
          pivot_indices = indices_of_first_nonzero_terms_in_each_row s
      in basepoint_walk (replicate num_variables 0) (zip pivot_indices (planes s)))"

definition do_gaussian_elimination_and_parametrization ::
  "linear_system \<Rightarrow> error + parametrization" where
  "do_gaussian_elimination_and_parametrization s =
     bindE (compute_rref s) (\<lambda>rref.
     bindE (raise_excepion_if_contradictory_equation rref) (\<lambda>_.
     bindE (extract_direction_vectors_for_parametrization rref) (\<lambda>dvs.
     bindE (extract_basepoint_for_parametrization rref) (\<lambda>b.
     Parametrization_init b dvs))))"

text \<open>
  \<^verbatim>\<open>compute_solution\<close> returns the Parametrization, or the message of an exception
  that carries one of the two classification messages; any other exception goes on to
  the caller.
\<close>

datatype solution = Parametrized parametrization | Message string

definition classify :: "error + parametrization \<Rightarrow> error + solution" where
  "classify r =
     (case r of
        Inr p \<Rightarrow> Inr (Parametrized p)
      | Inl e \<Rightarrow>
          (if e = Exception NO_SOLUTIONS_MSG \<or> e = Exception INF_SOLUTIONS_MSG
           then Inr (Message (case e of Exception m \<Rightarrow> m | _ \<Rightarrow> []))
           else Inl e))"

definition compute_solution :: "linear_system \<Rightarrow> error + solution" where
  "compute_solution s = classify (do_gaussian_elimination_and_parametrization s)"

section \<open>Concrete systems of the specification\<close>

text \<open>
  Building a system from rows given as (normal vector, constant term): every row goes
  through \<^verbatim>\<open>Plane(normal_vector=Vector(...), constant_term=...)\<close>, the list through
  \<^verbatim>\<open>LinearSystem(...)\<close>.
\<close>

fun make_planes :: "(vector \<times> rat) list \<Rightarrow> error + plane list" where
  "make_planes [] = Inr []"
| "make_planes ((n, c) # rest) =
     (case Plane_init (Some n) (Some c) of
        Inl e \<Rightarrow> Inl e
      | Inr p \<Rightarrow> (case make_planes rest of Inl e \<Rightarrow> Inl e | Inr ps \<Rightarrow> Inr (p # ps)))"

definition make_system :: "(vector \<times> rat) list \<Rightarrow> error + linear_system" where
  "make_system rows = bindE (make_planes rows) LinearSystem_init"

definition unique_system :: "(vector \<times> rat) list" where
  "unique_system = [([1, 1, 1], 1), ([0, 1, 0], 2), ([0, 0, 1], 3)]"



definition contradiction_system :: "(vector \<times> rat) list" where
  "contradiction_system = [([0, 0, 0], 0), ([0, 0, 0], 5)]"

section \<open>The solution set of a system\<close>








section \<open>Sequences of elementary row operations\<close>










section \<open>The dimension invariant\<close>



section \<open>The receiver and the deep copy\<close>






section \<open>Hyperplane (hyperplane.py)\<close>

definition EITHER_DIM_OR_NORMAL_VEC_MUST_BE_PROVIDED_MSG :: string where
  "EITHER_DIM_OR_NORMAL_VEC_MUST_BE_PROVIDED_MSG =
     ''Either the dimension                 of the hyperplane or the normal vector must be provided''"

text \<open>
  The attributes of a Hyperplane object. \<^verbatim>\<open>__init__\<close> assigns \<^verbatim>\<open>self.dimension\<close> and
  \<^verbatim>\<open>self.constant_term\<close>; it binds the local name \<^verbatim>\<open>normal_vector\<close> and never
  assigns \<^verbatim>\<open>self.normal_vector\<close>, so that attribute is \<open>None\<close> here when it does not
  exist on the object.
\<close>

record hyperplane =
  hp_dimension :: nat
  hp_normal_vector :: "vector option"
  hp_constant_term :: rat
  hp_basepoint :: "vector option"

text \<open>
  \<^verbatim>\<open>Hyperplane.set_basepoint\<close>: reading a missing attribute raises AttributeError
  inside the \<^verbatim>\<open>try\<close>; its message is not the sentinel, so the handler raises it
  again.
\<close>

definition Hyperplane_set_basepoint :: "hyperplane \<Rightarrow> error + hyperplane" where
  "Hyperplane_set_basepoint self =
     (case (case hp_normal_vector self of
              None \<Rightarrow> Inl AttributeError
            | Some n \<Rightarrow> basepoint_try (hp_dimension self) n (hp_constant_term self)) of
        Inr b \<Rightarrow> Inr (self\<lparr>hp_basepoint := Some b\<rparr>)
      | Inl e \<Rightarrow>
          (if e = Exception NO_NONZERO_ELTS_FOUND_MSG then Inr (self\<lparr>hp_basepoint := None\<rparr>)
           else Inl e))"

text \<open>
  \<^verbatim>\<open>Hyperplane.__init__(dimension=None, normal_vector=None, constant_term=None)\<close>;
  \<^verbatim>\<open>not dimension\<close> holds for \<open>None\<close> and for 0.
\<close>

definition Hyperplane_init ::
  "nat option \<Rightarrow> vector option \<Rightarrow> rat option \<Rightarrow> error + hyperplane" where
  "Hyperplane_init dimension_given nv ct =
     (if (dimension_given = None \<or> dimension_given = Some 0) \<and> nv = None
      then Inl (Exception EITHER_DIM_OR_NORMAL_VEC_MUST_BE_PROVIDED_MSG)
      else
        (let d = (case nv of None \<Rightarrow> (case dimension_given of Some k \<Rightarrow> k | None \<Rightarrow> 0)
                           | Some v \<Rightarrow> length v);
             c = (case ct of None \<Rightarrow> 0 | Some c \<Rightarrow> c)
         in Hyperplane_set_basepoint
              \<lparr>hp_dimension = d, hp_normal_vector = None, hp_constant_term = c,
               hp_basepoint = None\<rparr>))"

section \<open>The coincidence test\<close>








section \<open>Reading the coefficient matrix\<close>










section \<open>Errors that pass through the pipeline\<close>

text \<open>
  The errors that the elimination can raise and that no handler of the pipeline catches
  by its message.
\<close>

definition low_level :: "error \<Rightarrow> bool" where
  "low_level e = (e = IndexError \<or> e = DecimalDivisionError \<or> e = DimensionMismatch)"

section \<open>Basic facts\<close>

lemma bindE_Inl [simp]: "bindE (Inl e) f = Inl e"
  by (simp add: bindE_def)

lemma bindE_Inr [simp]: "bindE (Inr x) f = f x"
  by (simp add: bindE_def)


lemma bindE_eq_Inl: "bindE m f = Inl e \<longleftrightarrow> m = Inl e \<or> (\<exists>x. m = Inr x \<and> f x = Inl e)"
  by (cases m) simp_all

lemma eps_pos: "0 < eps"
  by (simp add: eps_def)

lemma is_near_zero_0 [simp]: "is_near_zero 0"
  by (simp add: is_near_zero_def eps_pos)

lemma py_index_nat [simp]: "py_index n (int k) = (if k < n then Inr k else Inl IndexError)"
  by (simp add: py_index_def)


lemma py_index_Inl: "py_index n i = Inl e \<Longrightarrow> e = IndexError"
  by (auto simp: py_index_def split: if_splits)

lemma list_getitem_nat [simp]:
  "list_getitem xs (int k) = (if k < length xs then Inr (xs ! k) else Inl IndexError)"
  by (simp add: list_getitem_def)

lemma list_setitem_nat [simp]:
  "list_setitem xs (int k) v = (if k < length xs then Inr (xs[k := v]) else Inl IndexError)"
  by (simp add: list_setitem_def)



lemma list_getitem_Inl: "list_getitem xs i = Inl e \<Longrightarrow> e = IndexError"
  by (auto simp: list_getitem_def bindE_eq_Inl dest: py_index_Inl)

lemma list_setitem_Inl: "list_setitem xs i v = Inl e \<Longrightarrow> e = IndexError"
  by (auto simp: list_setitem_def bindE_eq_Inl dest: py_index_Inl)

lemma first_nonzero_index_from_Inr:
  "first_nonzero_index_from k xs = Inr j \<longleftrightarrow>
     (k \<le> j \<and> j - k < length xs \<and> \<not> is_near_zero (xs ! (j - k)) \<and>
      (\<forall>i < j - k. is_near_zero (xs ! i)))"
proof (induction xs arbitrary: k)
  case Nil
  then show ?case by simp
next
  case (Cons x xs)
  show ?case
  proof (cases "is_near_zero x")
    case False
    then show ?thesis by (auto simp: nth_Cons split: nat.splits) 
  next
    case True
    have "(Suc k \<le> j \<and> j - Suc k < length xs \<and> \<not> is_near_zero (xs ! (j - Suc k)) \<and>
            (\<forall>i<j - Suc k. is_near_zero (xs ! i)))
        \<longleftrightarrow> (k \<le> j \<and> j - k < length (x # xs) \<and> \<not> is_near_zero ((x # xs) ! (j - k)) \<and>
            (\<forall>i<j - k. is_near_zero ((x # xs) ! i)))" (is "?L \<longleftrightarrow> ?R")
    proof
      assume l: ?L
      then have jk: "j - k = Suc (j - Suc k)" by arith
      show ?R using l True unfolding jk by (auto simp: nth_Cons split: nat.splits)
    next
      assume r: ?R
      then have "j \<noteq> k" using True by auto
      with r have jk: "j - k = Suc (j - Suc k)" "Suc k \<le> j" by arith+
      show ?L using r True unfolding jk(1) using jk(2) by (auto simp: nth_Cons split: nat.splits)
    qed
    with True Cons.IH[of "Suc k"] show ?thesis by simp
  qed
qed

lemma first_nonzero_index_Inr:
  "first_nonzero_index xs = Inr j \<longleftrightarrow>
     (j < length xs \<and> \<not> is_near_zero (xs ! j) \<and> (\<forall>i < j. is_near_zero (xs ! i)))"
  by (simp add: first_nonzero_index_def first_nonzero_index_from_Inr)

lemma first_nonzero_index_from_Inl:
  "first_nonzero_index_from k xs = Inl e \<longleftrightarrow>
     (e = Exception NO_NONZERO_ELTS_FOUND_MSG \<and> (\<forall>x \<in> set xs. is_near_zero x))"
  by (induction xs arbitrary: k) auto

lemma first_nonzero_index_Inl:
  "first_nonzero_index xs = Inl e \<longleftrightarrow>
     (e = Exception NO_NONZERO_ELTS_FOUND_MSG \<and> (\<forall>x \<in> set xs. is_near_zero x))"
  by (simp add: first_nonzero_index_def first_nonzero_index_from_Inl)


lemma low_level_simps [simp]:
  "low_level IndexError" "low_level DecimalDivisionError" "low_level DimensionMismatch"
  "\<not> low_level (Exception m)" "\<not> low_level AttributeError"
  by (simp_all add: low_level_def)

lemma vec_getitem_Inl: "vec_getitem v i = Inl e \<Longrightarrow> low_level e"
  by (auto simp: vec_getitem_def dest: list_getitem_Inl)

lemma decimal_div_Inl: "decimal_div a b = Inl e \<Longrightarrow> low_level e"
  by (auto simp: decimal_div_def split: if_splits)

lemma vec_add_Inl: "vec_add v w = Inl e \<Longrightarrow> low_level e"
  by (auto simp: vec_add_def split: if_splits)

lemma basepoint_try_Inl:
  "basepoint_try d n c = Inl e \<Longrightarrow> e = Exception NO_NONZERO_ELTS_FOUND_MSG \<or> low_level e"
  by (auto simp: basepoint_try_def bindE_eq_Inl first_nonzero_index_Inl
      simp del: list_setitem_nat
      dest: vec_getitem_Inl decimal_div_Inl list_setitem_Inl)

lemma set_basepoint_Inl: "set_basepoint d n c = Inl e \<Longrightarrow> low_level e"
  by (auto simp: set_basepoint_def split: sum.splits if_splits dest: basepoint_try_Inl)

lemma Plane_init_Inl: "Plane_init nv ct = Inl e \<Longrightarrow> low_level e"
  by (auto simp: Plane_init_def Let_def bindE_eq_Inl dest: set_basepoint_Inl)


lemma add_multiple_Inl:
  "add_multiple_times_row_to_row s a i k = Inl e \<Longrightarrow> low_level e"
  by (auto simp: add_multiple_times_row_to_row_def bindE_eq_Inl
      dest: list_getitem_Inl list_setitem_Inl vec_add_Inl Plane_init_Inl)

lemma multiply_Inl:
  "multiply_coefficient_and_row s a i = Inl e \<Longrightarrow> low_level e"
  by (auto simp: multiply_coefficient_and_row_def bindE_eq_Inl
      dest: list_getitem_Inl list_setitem_Inl Plane_init_Inl)

lemma swap_rows_Inl: "swap_rows s i k = Inl e \<Longrightarrow> low_level e"
  by (auto simp: swap_rows_def bindE_eq_Inl dest: list_getitem_Inl list_setitem_Inl)

lemma coeff_at_Inl: "coeff_at s r c = Inl e \<Longrightarrow> low_level e"
  by (auto simp: coeff_at_def getitem_def bindE_eq_Inl simp del: list_getitem_nat
      dest: list_getitem_Inl vec_getitem_Inl)

lemma swap_below_loop_Inl: "swap_below_loop s row col ks = Inl e \<Longrightarrow> low_level e"
  by (induction ks) (auto split: sum.splits if_splits dest: coeff_at_Inl swap_rows_Inl)

lemma swap_with_row_below_Inl:
  "swap_with_row_below_for_nonzero_coefficient s row col = Inl e \<Longrightarrow> low_level e"
  by (auto simp: swap_with_row_below_for_nonzero_coefficient_def dest: swap_below_loop_Inl)

lemma clear_below_loop_Inl: "clear_below_loop s row col beta ks = Inl e \<Longrightarrow> low_level e"
  by (induction ks arbitrary: s)
     (auto split: sum.splits dest: coeff_at_Inl decimal_div_Inl add_multiple_Inl)

lemma clear_coeffs_below_Inl: "clear_coeffs_below s row col = Inl e \<Longrightarrow> low_level e"
  by (auto simp: clear_coeffs_below_def bindE_eq_Inl dest: coeff_at_Inl clear_below_loop_Inl)

lemma triangular_while_Inl:
  "triangular_while n s row col = Inl e \<Longrightarrow> low_level e"
proof (induction n s row col rule: triangular_while.induct)
  case (1 n s row col)
  note run = "1.prems"[unfolded triangular_while.simps[of n s row col]]
  show ?case
  proof (cases "col < n")
    case False
    with run show ?thesis by simp
  next
    case col: True
    show ?thesis
    proof (cases "coeff_at s row col")
      case (Inl e')
      with run col have "e' = e" by simp
      with coeff_at_Inl[OF Inl] show ?thesis by simp
    next
      case c: (Inr c)
      show ?thesis
      proof (cases "is_near_zero c")
        case False
        with run col c have "clear_coeffs_below s row col = Inl e"
          by (simp split: sum.splits)
        then show ?thesis by (rule clear_coeffs_below_Inl)
      next
        case near: True
        show ?thesis
        proof (cases "swap_with_row_below_for_nonzero_coefficient s row col")
          case (Inl e')
          with run col c near have "e' = e" by simp
          with swap_with_row_below_Inl[OF Inl] show ?thesis by simp
        next
          case (Inr r)
          obtain swapped s1 where r: "r = (swapped, s1)" by (cases r)
          show ?thesis
          proof (cases swapped)
            case True
            with run col c near Inr r have "clear_coeffs_below s1 row col = Inl e"
              by (simp split: sum.splits)
            then show ?thesis by (rule clear_coeffs_below_Inl)
          next
            case False
            with run col c near Inr r
            have "triangular_while n s1 row (col + 1) = Inl e" by simp
            with "1.IH"[OF col c near Inr[unfolded r] refl] False show ?thesis by simp
          qed
        qed
      qed
    qed
  qed
qed

lemma triangular_rows_Inl:
  "triangular_rows n s col rows = Inl e \<Longrightarrow> low_level e"
  by (induction rows arbitrary: s col)
     (auto split: sum.splits prod.splits dest: triangular_while_Inl)

lemma compute_triangular_form_Inl: "compute_triangular_form s = Inl e \<Longrightarrow> low_level e"
  by (auto simp: compute_triangular_form_def dest: triangular_rows_Inl)

lemma clear_above_loop_Inl: "clear_above_loop s row col ks = Inl e \<Longrightarrow> low_level e"
  by (induction ks arbitrary: s)
     (auto split: sum.splits dest: coeff_at_Inl add_multiple_Inl)

lemma scale_row_Inl:
  "scale_row_to_make_coefficient_equal_one s row col = Inl e \<Longrightarrow> low_level e"
  by (auto simp: scale_row_to_make_coefficient_equal_one_def bindE_eq_Inl
      dest: coeff_at_Inl decimal_div_Inl multiply_Inl)

lemma rref_rows_Inl: "rref_rows s pivots rows = Inl e \<Longrightarrow> low_level e"
  by (induction rows arbitrary: s)
     (auto simp: clear_coefficients_above_def simp del: list_getitem_nat
       split: sum.splits if_splits
       dest: list_getitem_Inl scale_row_Inl clear_above_loop_Inl)

lemma compute_rref_Inl: "compute_rref s = Inl e \<Longrightarrow> low_level e"
  by (auto simp: compute_rref_def bindE_eq_Inl
      dest: compute_triangular_form_Inl rref_rows_Inl)

lemma direction_walk_Inl: "direction_walk f cs rows = Inl e \<Longrightarrow> low_level e"
proof (induction rows arbitrary: cs)
  case Nil
  then show ?case by simp
next
  case (Cons r rows)
  obtain pv pl where r: "r = (pv, pl)" by (cases r)
  show ?case
  proof (cases "pv < 0")
    case True
    with Cons.prems show ?thesis by (simp add: r)
  next
    case False
    show ?thesis
    proof (cases "vec_getitem (normal_vector pl) (int f)")
      case (Inl e')
      with Cons.prems False have "e' = e" by (simp add: r)
      with vec_getitem_Inl[OF Inl] show ?thesis by simp
    next
      case (Inr a)
      show ?thesis
      proof (cases "list_setitem cs pv (- a)")
        case (Inl e')
        with Cons.prems False Inr have "e' = e" by (simp add: r)
        with list_setitem_Inl[OF Inl] show ?thesis by simp
      next
        case Inr2: (Inr cs')
        with Cons.prems False Inr have "direction_walk f cs' rows = Inl e" by (simp add: r)
        then show ?thesis by (rule Cons.IH)
      qed
    qed
  qed
qed

lemma direction_loop_Inl: "direction_loop n rows fs = Inl e \<Longrightarrow> low_level e"
proof (induction fs)
  case Nil
  then show ?case by simp
next
  case (Cons f fs)
  from Cons.prems show ?case
    unfolding direction_loop.simps
    by (auto split: sum.splits if_splits
        dest: direction_walk_Inl Cons.IH)
qed

lemma extract_direction_vectors_Inl:
  "extract_direction_vectors_for_parametrization s = Inl e \<Longrightarrow> low_level e"
  by (auto simp: extract_direction_vectors_for_parametrization_def Let_def
      dest: direction_loop_Inl)

lemma basepoint_walk_Inl: "basepoint_walk cs rows = Inl e \<Longrightarrow> low_level e"
proof (induction rows arbitrary: cs)
  case Nil
  then show ?case by simp
next
  case (Cons r rows)
  obtain pv pl where r: "r = (pv, pl)" by (cases r)
  show ?case
  proof (cases "pv < 0")
    case True
    with Cons.prems show ?thesis by (simp add: r)
  next
    case False
    show ?thesis
    proof (cases "list_setitem cs pv (constant_term pl)")
      case (Inl e')
      with Cons.prems False have "e' = e" by (simp add: r)
      with list_setitem_Inl[OF Inl] show ?thesis by simp
    next
      case (Inr cs')
      with Cons.prems False have "basepoint_walk cs' rows = Inl e" by (simp add: r)
      then show ?thesis by (rule Cons.IH)
    qed
  qed
qed

lemma extract_basepoint_Inl:
  "extract_basepoint_for_parametrization s = Inl e \<Longrightarrow> low_level e"
  by (auto simp: extract_basepoint_for_parametrization_def Let_def dest: basepoint_walk_Inl)

lemma contradictory_iff:
  "contradictory p \<longleftrightarrow>
     (\<forall>x \<in> set (normal_vector p). is_near_zero x) \<and> \<not> is_near_zero (constant_term p)"
proof (cases "first_nonzero_index (normal_vector p)")
  case (Inl e)
  then show ?thesis
    by (simp add: contradictory_def) (simp add: first_nonzero_index_Inl)
next
  case (Inr k)
  then have "\<not> contradictory p" by (simp add: contradictory_def)
  moreover from Inr have "k < length (normal_vector p)" "\<not> is_near_zero (normal_vector p ! k)"
    by (simp_all add: first_nonzero_index_Inr)
  then have "\<not> (\<forall>x \<in> set (normal_vector p). is_near_zero x)"
    using nth_mem by blast
  ultimately show ?thesis by simp
qed

lemma do_gaussian_no_solutions:
  "do_gaussian_elimination_and_parametrization s = Inl (Exception NO_SOLUTIONS_MSG) \<longleftrightarrow>
     (\<exists>r. compute_rref s = Inr r \<and> list_ex contradictory (planes r))"
proof
  assume l: "do_gaussian_elimination_and_parametrization s = Inl (Exception NO_SOLUTIONS_MSG)"
  show "\<exists>r. compute_rref s = Inr r \<and> list_ex contradictory (planes r)"
  proof (cases "compute_rref s")
    case (Inl e)
    with l have "e = Exception NO_SOLUTIONS_MSG"
      by (simp add: do_gaussian_elimination_and_parametrization_def)
    with compute_rref_Inl[OF Inl] show ?thesis by simp
  next
    case (Inr r)
    show ?thesis
    proof (cases "list_ex contradictory (planes r)")
      case True
      with Inr show ?thesis by simp
    next
      case False
      with l Inr have "bindE (extract_direction_vectors_for_parametrization r) (\<lambda>dvs.
         bindE (extract_basepoint_for_parametrization r) (\<lambda>b.
         Parametrization_init b dvs)) = Inl (Exception NO_SOLUTIONS_MSG)"
        by (simp add: do_gaussian_elimination_and_parametrization_def
            raise_excepion_if_contradictory_equation_def)
      then have False
        by (auto simp: bindE_eq_Inl Parametrization_init_def NO_SOLUTIONS_MSG_def
            BASEPT_AND_DIR_VECTORS_MUST_BE_IN_SAME_DIM_def split: if_splits
            dest: extract_direction_vectors_Inl extract_basepoint_Inl)
      then show ?thesis ..
    qed
  qed
next
  assume "\<exists>r. compute_rref s = Inr r \<and> list_ex contradictory (planes r)"
  then show "do_gaussian_elimination_and_parametrization s = Inl (Exception NO_SOLUTIONS_MSG)"
    by (auto simp: do_gaussian_elimination_and_parametrization_def
        raise_excepion_if_contradictory_equation_def)
qed

lemma compute_solution_no_solutions:
  "compute_solution s = Inr (Message NO_SOLUTIONS_MSG) \<longleftrightarrow>
     (\<exists>r. compute_rref s = Inr r \<and> list_ex contradictory (planes r))"
proof -
  have "compute_solution s = Inr (Message NO_SOLUTIONS_MSG) \<longleftrightarrow>
        do_gaussian_elimination_and_parametrization s = Inl (Exception NO_SOLUTIONS_MSG)"
    by (auto simp: compute_solution_def classify_def NO_SOLUTIONS_MSG_def INF_SOLUTIONS_MSG_def
        split: sum.splits error.splits)
  then show ?thesis by (simp add: do_gaussian_no_solutions)
qed

section \<open>The row operations\<close>








lemma dot_Inr: "dot v x = Inr r \<longleftrightarrow> length v = length x \<and> r = sum_list (map2 (\<lambda>x y. x * y) v x)"
  by (auto simp: dot_def)










section \<open>The row operations on the coefficient matrix\<close>












section \<open>Claims\<close>

text \<open>
  C1. For the system with the normal vectors (1,1,1), (0,1,0), (0,0,1) and the constant
  terms 1, 2, 3, \<^verbatim>\<open>compute_solution\<close> returns a Parametrization with no direction
  vector and the basepoint (-4, 2, 3).
\<close>

theorem C1_unique_solution:
  "bindE (make_system unique_system) compute_solution =
     Inr (Parametrized
       \<lparr>param_basepoint = [- 4, 2, 3], direction_vectors = [], param_dimension = 3\<rparr>)"
  by code_simp









section \<open>The triangular form\<close>



















section \<open>The reduced form\<close>









lemma contradiction_system_no_solutions:
  "bindE (make_system contradiction_system) compute_solution = Inr (Message ''No solutions'')"
  by code_simp

text \<open>
  C6. \<^verbatim>\<open>compute_solution\<close> returns the message "No solutions" exactly when
  \<^verbatim>\<open>compute_rref\<close> returns a system with a row whose normal vector has only
  coordinates within epsilon of zero and whose constant term is not within epsilon of
  zero; the system of the rows 0x+0y+0z=0 and 0x+0y+0z=5 is classified so.
\<close>

theorem C6_no_solutions:
  "(compute_solution s = Inr (Message ''No solutions'') \<longleftrightarrow>
      (\<exists>r. compute_rref s = Inr r \<and>
           (\<exists>p \<in> set (planes r).
              (\<forall>x \<in> set (normal_vector p). is_near_zero x) \<and>
              \<not> is_near_zero (constant_term p)))) \<and>
   bindE (make_system contradiction_system) compute_solution = Inr (Message ''No solutions'')"
  using compute_solution_no_solutions[of s] contradiction_system_no_solutions
  by (simp add: NO_SOLUTIONS_MSG_def list_ex_iff contradictory_iff)

text \<open>C6 at the contradictory system, which is its own reduced form.\<close>

theorem C6_witness:
  "compute_rref (projr (make_system contradiction_system)) =
     Inr (projr (make_system contradiction_system)) \<and>
   compute_solution (projr (make_system contradiction_system)) = Inr (Message ''No solutions'')"
proof -
  let ?s = "projr (make_system contradiction_system)"
  have r: "compute_rref ?s = Inr ?s" by code_simp
  have p: "planes ?s ! 1 \<in> set (planes ?s)" by code_simp
  have z: "list_all is_near_zero (normal_vector (planes ?s ! 1))" by code_simp
  have c: "\<not> is_near_zero (constant_term (planes ?s ! 1))" by code_simp
  from z have z': "\<forall>x \<in> set (normal_vector (planes ?s ! 1)). is_near_zero x"
    by (simp add: list_all_iff)
  from r p z' c have "\<exists>r. compute_rref ?s = Inr r \<and>
           (\<exists>p \<in> set (planes r).
              (\<forall>x \<in> set (normal_vector p). is_near_zero x) \<and>
              \<not> is_near_zero (constant_term p))"
    by blast
  with C6_no_solutions[of ?s] r show ?thesis by blast
qed

text \<open>
  C7. The claim asks that constructing a Hyperplane fails only when neither a dimension
  nor a normal vector is given, and otherwise succeeds and caches the basepoint. In the
  code every construction fails: with the configuration message in the first case, with
  AttributeError in every other case, since \<^verbatim>\<open>set_basepoint\<close> reads
  \<^verbatim>\<open>self.normal_vector\<close>, which \<^verbatim>\<open>__init__\<close> never assigns (\<^verbatim>\<open>Plane.__init__\<close>
  does).
\<close>

theorem C7_hyperplane_init_fails:
  "Hyperplane_init d nv ct =
     Inl (if (d = None \<or> d = Some 0) \<and> nv = None
          then Exception EITHER_DIM_OR_NORMAL_VEC_MUST_BE_PROVIDED_MSG
          else AttributeError)"
  by (simp add: Hyperplane_init_def Hyperplane_set_basepoint_def Let_def
      NO_NONZERO_ELTS_FOUND_MSG_def)































end
